theory Spec2Isabelle
  imports Complex_Main
begin

section \<open>Python values used by the bot\<close>

text \<open>
  A Python \<open>str\<close> is modelled as a \<open>string\<close>: the characters of an ASCII text, and the
  UTF-8 bytes of the few non-ASCII literals of the source. The whitespace and digit tests
  below are the ASCII ones; non-ASCII whitespace and non-ASCII decimal digits, which
  Python also strips and converts, are ordinary characters here.

  A Python \<open>float\<close> is kept as the exact rational its literal denotes, or one of the
  three special values. Rounding to binary64 (and overflow to infinity) is left out: the
  model decides which strings \<open>float()\<close> accepts, and the value 0.5 is a binary64 number.
\<close>

datatype pyfloat = Fin rat | PosInf | NegInf | NaN

datatype pyval = PStr string | PInt int | PFloat pyfloat

text \<open>\<open>str.strip()\<close> removes the characters for which \<open>str.isspace\<close> holds.\<close>

definition str_isspace :: "char \<Rightarrow> bool" where
  "str_isspace c \<longleftrightarrow> (of_char c :: nat) \<in> {9, 10, 11, 12, 13, 28, 29, 30, 31, 32}"

definition strip :: "string \<Rightarrow> string" where
  "strip s = rev (dropWhile str_isspace (rev (dropWhile str_isspace s)))"

text \<open>
  \<open>int()\<close> and \<open>float()\<close> skip the whitespace of the C locale around an ASCII string,
  a smaller set than that of \<open>str.strip\<close>.
\<close>

definition c_isspace :: "char \<Rightarrow> bool" where
  "c_isspace c \<longleftrightarrow> (of_char c :: nat) \<in> {9, 10, 11, 12, 13, 32}"

definition c_strip :: "string \<Rightarrow> string" where
  "c_strip s = rev (dropWhile c_isspace (rev (dropWhile c_isspace s)))"

definition is_digit :: "char \<Rightarrow> bool" where
  "is_digit c \<longleftrightarrow> 48 \<le> (of_char c :: nat) \<and> (of_char c :: nat) \<le> 57"

definition digit_val :: "char \<Rightarrow> nat" where
  "digit_val c = of_char c - 48"

definition digits_val :: "string \<Rightarrow> nat" where
  "digits_val ds = foldl (\<lambda>n c. 10 * n + digit_val c) 0 ds"

definition lower :: "char \<Rightarrow> char" where
  "lower c = (if 65 \<le> (of_char c :: nat) \<and> (of_char c :: nat) \<le> 90
              then char_of ((of_char c :: nat) + 32) else c)"

text \<open>
  Underscores in a numeric literal: one underscore is allowed between two digits and
  nowhere else. The function walks the string with the previous character, as the
  interpreter's loop does, and returns the string without its underscores.
\<close>

fun remove_underscores :: "char \<Rightarrow> string \<Rightarrow> string option" where
  "remove_underscores prev [] = (if prev = CHR ''_'' then None else Some [])"
| "remove_underscores prev (c # cs) =
     (if c = CHR ''_'' then
        (if is_digit prev then remove_underscores c cs else None)
      else if prev = CHR ''_'' \<and> \<not> is_digit c then None
      else map_option ((#) c) (remove_underscores c cs))"

definition split_sign :: "string \<Rightarrow> bool \<times> string" where
  "split_sign s =
     (case s of
        [] \<Rightarrow> (False, [])
      | c # cs \<Rightarrow> if c = CHR ''-'' then (True, cs)
                  else if c = CHR ''+'' then (False, cs)
                  else (False, s))"

text \<open>\<open>int(value)\<close> in base 10 on a string: \<open>None\<close> is the \<open>ValueError\<close>.\<close>

definition py_int :: "string \<Rightarrow> int option" where
  "py_int s =
     (let (neg, body) = split_sign (c_strip s) in
      case remove_underscores (CHR 0x00) body of
        None \<Rightarrow> None
      | Some ds \<Rightarrow>
          if ds \<noteq> [] \<and> list_all is_digit ds
          then Some (if neg then - int (digits_val ds) else int (digits_val ds))
          else None)"

text \<open>
  A decimal literal without sign and underscores: digits, an optional point with
  digits (at least one digit on one side), an optional exponent.
\<close>

definition scale10 :: "nat \<Rightarrow> int \<Rightarrow> rat" where
  "scale10 m e = (if 0 \<le> e then of_nat m * 10 ^ nat e else of_nat m / 10 ^ nat (- e))"

definition parse_decimal :: "string \<Rightarrow> rat option" where
  "parse_decimal s =
     (let ip = takeWhile is_digit s;
          r1 = dropWhile is_digit s;
          (fp, r2) = (case r1 of
                        [] \<Rightarrow> ([], [])
                      | c # cs \<Rightarrow> if c = CHR ''.''
                                  then (takeWhile is_digit cs, dropWhile is_digit cs)
                                  else ([], r1))
      in if ip = [] \<and> fp = [] then None
         else case r2 of
                [] \<Rightarrow> Some (scale10 (digits_val (ip @ fp)) (- int (length fp)))
              | c # cs \<Rightarrow>
                  if c = CHR ''e'' \<or> c = CHR ''E'' then
                    (let (eneg, ds) = split_sign cs in
                     if ds \<noteq> [] \<and> list_all is_digit ds
                     then Some (scale10 (digits_val (ip @ fp))
                                  ((if eneg then - int (digits_val ds) else int (digits_val ds))
                                   - int (length fp)))
                     else None)
                  else None)"

text \<open>\<open>float(value)\<close> on a string: \<open>None\<close> is the \<open>ValueError\<close>.\<close>

definition py_float :: "string \<Rightarrow> pyfloat option" where
  "py_float s =
     (case remove_underscores (CHR 0x00) (c_strip s) of
        None \<Rightarrow> None
      | Some u \<Rightarrow>
          (let (neg, body) = split_sign u; l = map lower body in
           if l = ''inf'' \<or> l = ''infinity'' then Some (if neg then NegInf else PosInf)
           else if l = ''nan'' then Some NaN
           else map_option (\<lambda>q. Fin (if neg then - q else q)) (parse_decimal body)))"

section \<open>The store (database.py)\<close>

subsection \<open>UserSettings\<close>

text \<open>
  \<open>ai_params\<close> is a JSON text holding a dictionary; \<open>json.loads\<close> after \<open>json.dumps\<close>
  gives back the same strings, integers and floats, so the field is the dictionary.
\<close>

type_synonym params = "string \<rightharpoonup> pyval"

definition DEFAULT_AI_PARAMS :: params where
  "DEFAULT_AI_PARAMS =
     [''model'' \<mapsto> PStr ''gpt-3.5-turbo'',
      ''temperature'' \<mapsto> PFloat (Fin (7 / 10)),
      ''max_tokens'' \<mapsto> PInt 1000,
      ''top_p'' \<mapsto> PFloat (Fin 1),
      ''frequency_penalty'' \<mapsto> PFloat (Fin 0),
      ''presence_penalty'' \<mapsto> PFloat (Fin 0)]"

record UserSettings =
  ai_params :: params

definition get_ai_params :: "UserSettings \<Rightarrow> params" where
  "get_ai_params s = ai_params s"

text \<open>\<open>UserSettings.set_param\<close>: the result and the settings afterwards.\<close>

definition set_param :: "UserSettings \<Rightarrow> string \<Rightarrow> string \<Rightarrow> bool \<times> UserSettings" where
  "set_param s param val =
     (let params = get_ai_params s in
      if params param = None then (False, s)
      else if param = ''model'' then
        (True, s\<lparr>ai_params := params(param \<mapsto> PStr val)\<rparr>)
      else if param \<in> {''temperature'', ''top_p'', ''frequency_penalty'', ''presence_penalty''} then
        (case py_float val of
           None \<Rightarrow> (False, s)
         | Some v \<Rightarrow> (True, s\<lparr>ai_params := params(param \<mapsto> PFloat v)\<rparr>))
      else if param = ''max_tokens'' then
        (case py_int val of
           None \<Rightarrow> (False, s)
         | Some n \<Rightarrow> (True, s\<lparr>ai_params := params(param \<mapsto> PInt n)\<rparr>))
      else (False, s))"

subsection \<open>Rows and tables\<close>

text \<open>
  The profile fields of a user (name fields) and the creation and update times of users,
  settings and conversations play no part in any operation below and are left out.
  \<open>users\<close> is keyed by \<open>telegram_id\<close>, which the schema declares unique.
\<close>

record User =
  uid :: nat
  language_code :: string
  api_key :: "string option"
  user_settings :: "UserSettings option"

record Conversation =
  conv_id :: nat
  user_id :: nat

text \<open>\<open>content\<close> is a nullable column; \<open>timestamp\<close> is the clock reading at insertion.\<close>

record Message =
  msg_conversation_id :: nat
  role :: string
  content :: "string option"
  timestamp :: int

record Database =
  users :: "string \<rightharpoonup> User"
  conversations :: "Conversation list"
  messages :: "Message list"

definition DEFAULT_LANGUAGE :: string where
  "DEFAULT_LANGUAGE = ''zh''"

text \<open>\<open>User.__init__\<close>: a new user comes with its settings row, holding the defaults.\<close>

definition User_init :: "nat \<Rightarrow> string \<Rightarrow> User" where
  "User_init i lang =
     \<lparr>uid = i, language_code = lang, api_key = None,
      user_settings = Some \<lparr>ai_params = DEFAULT_AI_PARAMS\<rparr>\<rparr>"

subsection \<open>DatabaseManager\<close>

definition set_api_key :: "Database \<Rightarrow> string \<Rightarrow> string \<Rightarrow> bool \<times> Database" where
  "set_api_key db telegram_id key =
     (case users db telegram_id of
        Some user \<Rightarrow> (True, db\<lparr>users := (users db)(telegram_id \<mapsto> user\<lparr>api_key := Some key\<rparr>)\<rparr>)
      | None \<Rightarrow> (False, db))"

definition get_api_key :: "Database \<Rightarrow> string \<Rightarrow> string option" where
  "get_api_key db telegram_id =
     (case users db telegram_id of Some user \<Rightarrow> api_key user | None \<Rightarrow> None)"

text \<open>The primary key of a new row is one more than the largest key of the table.\<close>

definition next_conv_id :: "Conversation list \<Rightarrow> nat" where
  "next_conv_id cs = Suc (fold max (map conv_id cs) 0)"

definition create_conversation :: "Database \<Rightarrow> string \<Rightarrow> nat option \<times> Database" where
  "create_conversation db telegram_id =
     (case users db telegram_id of
        Some user \<Rightarrow>
          (let conversation = \<lparr>conv_id = next_conv_id (conversations db), user_id = uid user\<rparr>
           in (Some (conv_id conversation),
               db\<lparr>conversations := conversations db @ [conversation]\<rparr>))
      | None \<Rightarrow> (None, db))"

definition find_conversation :: "Database \<Rightarrow> nat \<Rightarrow> Conversation option" where
  "find_conversation db c = find (\<lambda>x. conv_id x = c) (conversations db)"

text \<open>
  \<open>add_message\<close>: \<open>now\<close> is what \<open>datetime.utcnow\<close> returns when the row is inserted (the
  column default of \<open>Message.timestamp\<close>).
\<close>

definition add_message ::
  "Database \<Rightarrow> int \<Rightarrow> nat \<Rightarrow> string \<Rightarrow> string option \<Rightarrow> bool \<times> Database" where
  "add_message db now c r txt =
     (case find_conversation db c of
        Some conversation \<Rightarrow>
          (True, db\<lparr>messages := messages db @
                     [\<lparr>msg_conversation_id = c, role = r, content = txt, timestamp = now\<rparr>]\<rparr>)
      | None \<Rightarrow> (False, db))"

text \<open>
  \<open>Conversation.messages\<close> is the relationship declared with
  \<open>order_by="Message.timestamp"\<close>: the rows of the conversation sorted by timestamp.
  The model sorts stably (rows with equal timestamps stay in insertion order), which
  SQL does not promise.
\<close>

definition conversation_messages :: "Database \<Rightarrow> Conversation \<Rightarrow> Message list" where
  "conversation_messages db conversation =
     sort_key timestamp (filter (\<lambda>m. msg_conversation_id m = conv_id conversation) (messages db))"

definition get_messages_for_api :: "Database \<Rightarrow> Conversation \<Rightarrow> (string \<times> string option) list" where
  "get_messages_for_api db conversation =
     map (\<lambda>msg. (role msg, content msg)) (conversation_messages db conversation)"

definition get_conversation_messages :: "Database \<Rightarrow> nat \<Rightarrow> (string \<times> string option) list" where
  "get_conversation_messages db c =
     (case find_conversation db c of
        Some conversation \<Rightarrow> get_messages_for_api db conversation
      | None \<Rightarrow> [])"

definition get_user_settings :: "Database \<Rightarrow> string \<Rightarrow> UserSettings option" where
  "get_user_settings db telegram_id =
     (case users db telegram_id of
        Some user \<Rightarrow> user_settings user
      | None \<Rightarrow> None)"

definition set_user_param :: "Database \<Rightarrow> string \<Rightarrow> string \<Rightarrow> string \<Rightarrow> bool \<times> Database" where
  "set_user_param db telegram_id param val =
     (case users db telegram_id of
        Some user \<Rightarrow>
          (case user_settings user of
             Some settings \<Rightarrow>
               (let (result, settings') = set_param settings param val in
                if result
                then (True, db\<lparr>users := (users db)(telegram_id \<mapsto> user\<lparr>user_settings := Some settings'\<rparr>)\<rparr>)
                else (False, db))
           | None \<Rightarrow> (False, db))
      | None \<Rightarrow> (False, db))"

definition set_language :: "Database \<Rightarrow> string \<Rightarrow> string \<Rightarrow> bool \<times> Database" where
  "set_language db telegram_id code =
     (case users db telegram_id of
        Some user \<Rightarrow> (True, db\<lparr>users := (users db)(telegram_id \<mapsto> user\<lparr>language_code := code\<rparr>)\<rparr>)
      | None \<Rightarrow> (False, db))"

definition get_language :: "Database \<Rightarrow> string \<Rightarrow> string" where
  "get_language db telegram_id =
     (case users db telegram_id of Some user \<Rightarrow> language_code user | None \<Rightarrow> DEFAULT_LANGUAGE)"

text \<open>
  A sequence of \<open>add_message\<close> calls against one conversation; the \<open>k\<close>-th row ever
  inserted into the message table gets the clock reading \<open>clock k\<close>.
\<close>

fun add_messages ::
  "(nat \<Rightarrow> int) \<Rightarrow> Database \<Rightarrow> nat \<Rightarrow> (string \<times> string option) list \<Rightarrow> Database" where
  "add_messages clock db c [] = db"
| "add_messages clock db c ((r, txt) # calls) =
     add_messages clock (snd (add_message db (clock (length (messages db))) c r txt)) c calls"

section \<open>The Completion Gateway (ai_service.py)\<close>

text \<open>
  An exception is a value. \<open>APIError\<close> is the client library's error class, every other
  subclass of \<open>Exception\<close> is \<open>OtherException\<close>; both carry \<open>str(e)\<close>. Signals that are
  not subclasses of \<open>Exception\<close> (task cancellation, interpreter exit) are outside the model.
\<close>

datatype exn = APIError string | OtherException string

datatype 'a outcome = is_Returns: Returns (result: 'a) | Raises exn

text \<open>
  The request sent to the completion service, and what the service and the clock answer.
  The service is an external collaborator: \<open>models_list\<close> is the outcome of building a
  client with a key and listing the models, \<open>completions_create\<close> the outcome of one
  completion request, a list of choices each carrying \<open>message.content\<close>, which the
  client library declares optional. \<open>utcnow k\<close> is the clock reading taken for the
  \<open>k\<close>-th row inserted into the message table. \<open>get_message\<close> renders a localized text
  from a language code, a message key and named arguments.
\<close>

record Request =
  req_messages :: "(string \<times> string option) list"
  req_model :: pyval
  req_temperature :: pyval
  req_max_tokens :: pyval
  req_top_p :: pyval
  req_frequency_penalty :: pyval
  req_presence_penalty :: pyval

record Env =
  utcnow :: "nat \<Rightarrow> int"
  models_list :: "string \<Rightarrow> unit outcome"
  completions_create :: "string \<Rightarrow> Request \<Rightarrow> (string option list) outcome"
  get_message :: "string \<Rightarrow> string \<Rightarrow> (string \<times> string) list \<Rightarrow> string"

text \<open>\<open>client\<close> is the key the client object was built with, \<open>None\<close> when there is none.\<close>

record AIService =
  service_api_key :: "string option"
  client :: "string option"

definition setup_client :: "AIService \<Rightarrow> string \<Rightarrow> AIService" where
  "setup_client svc key = svc\<lparr>service_api_key := Some key, client := Some key\<rparr>"

definition AIService_init :: "string option \<Rightarrow> AIService" where
  "AIService_init key =
     (let svc = \<lparr>service_api_key = key, client = None\<rparr> in
      case key of
        None \<Rightarrow> svc
      | Some k \<Rightarrow> if k \<noteq> [] then setup_client svc k else svc)"

definition validate_api_key :: "Env \<Rightarrow> string \<Rightarrow> bool outcome" where
  "validate_api_key env key =
     (case models_list env key of
        Returns u \<Rightarrow> Returns True
      | Raises e \<Rightarrow>
          (case e of
             APIError m \<Rightarrow> Returns False
           | OtherException m \<Rightarrow> Returns False))"

text \<open>The texts of the gateway, as UTF-8 bytes.\<close>

definition MSG_NO_CLIENT :: string where
  "MSG_NO_CLIENT = ''API'' @ map char_of
     [0xE5, 0xAF, 0x86, 0xE9, 0x92, 0xA5, 0xE6, 0x9C, 0xAA, 0xE8, 0xAE, 0xBE, 0xE7, 0xBD,
      0xAE, 0xEF, 0xBC, 0x8C, 0xE8, 0xAF, 0xB7, 0xE4, 0xBD, 0xBF, 0xE7, 0x94, 0xA8 :: nat]
     @ '' /setapi '' @ map char_of
     [0xE5, 0x91, 0xBD, 0xE4, 0xBB, 0xA4, 0xE8, 0xAE, 0xBE, 0xE7, 0xBD, 0xAE, 0xE6, 0x82,
      0xA8, 0xE7, 0x9A, 0x84 :: nat]
     @ ''OpenAI API'' @ map char_of
     [0xE5, 0xAF, 0x86, 0xE9, 0x92, 0xA5, 0xE3, 0x80, 0x82 :: nat]"

definition MSG_NO_CHOICES :: string where
  "MSG_NO_CHOICES = ''AI'' @ map char_of
     [0xE6, 0xB2, 0xA1, 0xE6, 0x9C, 0x89, 0xE7, 0x94, 0x9F, 0xE6, 0x88, 0x90, 0xE5, 0x93,
      0x8D, 0xE5, 0xBA, 0x94, 0xE3, 0x80, 0x82 :: nat]"

definition MSG_API_ERROR :: string where
  "MSG_API_ERROR = ''OpenAI API'' @ map char_of [0xE9, 0x94, 0x99, 0xE8, 0xAF, 0xAF :: nat] @ '': ''"

definition MSG_REQUEST_ERROR :: string where
  "MSG_REQUEST_ERROR = map char_of
     [0xE8, 0xAF, 0xB7, 0xE6, 0xB1, 0x82, 0xE5, 0xA4, 0x84, 0xE7, 0x90, 0x86, 0xE9, 0x94,
      0x99, 0xE8, 0xAF, 0xAF :: nat] @ '': ''"

definition MSG_CANNOT_CREATE :: string where
  "MSG_CANNOT_CREATE = map char_of
     [0xE6, 0x97, 0xA0, 0xE6, 0xB3, 0x95, 0xE5, 0x88, 0x9B, 0xE5, 0xBB, 0xBA, 0xE5, 0xAF,
      0xB9, 0xE8, 0xAF, 0x9D :: nat]"

definition dict_get :: "params \<Rightarrow> string \<Rightarrow> pyval \<Rightarrow> pyval" where
  "dict_get d k dflt = (case d k of Some v \<Rightarrow> v | None \<Rightarrow> dflt)"

text \<open>
  The defaults with the caller's parameters over them (an absent or empty dictionary
  changes nothing), read into the request.
\<close>

definition build_request :: "(string \<times> string option) list \<Rightarrow> params option \<Rightarrow> Request" where
  "build_request msgs ps =
     (let request_params = (case ps of None \<Rightarrow> DEFAULT_AI_PARAMS | Some p \<Rightarrow> DEFAULT_AI_PARAMS ++ p)
      in \<lparr>req_messages = msgs,
          req_model = dict_get request_params ''model'' (PStr ''gpt-3.5-turbo''),
          req_temperature = dict_get request_params ''temperature'' (PFloat (Fin (7 / 10))),
          req_max_tokens = dict_get request_params ''max_tokens'' (PInt 1000),
          req_top_p = dict_get request_params ''top_p'' (PFloat (Fin 1)),
          req_frequency_penalty = dict_get request_params ''frequency_penalty'' (PFloat (Fin 0)),
          req_presence_penalty = dict_get request_params ''presence_penalty'' (PFloat (Fin 0))\<rparr>)"

text \<open>\<open>chat_completion\<close>: the returned value is \<open>None\<close> when Python returns \<open>None\<close>.\<close>

definition chat_completion ::
  "Env \<Rightarrow> AIService \<Rightarrow> (string \<times> string option) list \<Rightarrow> params option \<Rightarrow> (string option) outcome" where
  "chat_completion env svc msgs ps =
     (case client svc of
        None \<Rightarrow> Returns (Some MSG_NO_CLIENT)
      | Some key \<Rightarrow>
          (case completions_create env key (build_request msgs ps) of
             Returns choices \<Rightarrow>
               (case choices of
                  [] \<Rightarrow> Returns (Some MSG_NO_CHOICES)
                | choice # others \<Rightarrow> Returns choice)
           | Raises e \<Rightarrow>
               (case e of
                  APIError m \<Rightarrow> Returns (Some (MSG_API_ERROR @ m))
                | OtherException m \<Rightarrow> Returns (Some (MSG_REQUEST_ERROR @ m)))))"

section \<open>Sessions (session_manager.py)\<close>

datatype UserState = IDLE | WAITING_API_KEY | WAITING_PARAM_VALUE | SELECTING_LANGUAGE | CHATTING

record UserSession =
  state :: UserState
  conversation_id :: "nat option"
  temp_data :: "string \<rightharpoonup> string"

definition UserSession_init :: UserSession where
  "UserSession_init = \<lparr>state = IDLE, conversation_id = None, temp_data = Map.empty\<rparr>"

text \<open>
  What the handlers do to the outside, in the order they do it: the replies sent to the
  user, the rows handed to the store and the calls of the gateway.
\<close>

datatype Event =
    Reply_text string
  | Edit_text "string option"
  | Answer_callback
  | Store_add_message nat string "string option"
  | Gateway_validate string
  | Gateway_complete "(string \<times> string option) list" "params option"

text \<open>The two process-wide managers and the effects so far.\<close>

record World =
  db :: Database
  sessions :: "string \<rightharpoonup> UserSession"
  ai_services :: "string \<rightharpoonup> AIService"
  trace :: "Event list"

definition emit :: "World \<Rightarrow> Event \<Rightarrow> World" where
  "emit w ev = w\<lparr>trace := trace w @ [ev]\<rparr>"

text \<open>
  \<open>get_user_session\<close> stores a fresh session for an unseen user and returns the stored
  object; \<open>the_session\<close> reads it, \<open>update_session\<close> is a method call on it.
\<close>

definition get_user_session :: "World \<Rightarrow> string \<Rightarrow> World" where
  "get_user_session w telegram_id =
     (case sessions w telegram_id of
        None \<Rightarrow> w\<lparr>sessions := (sessions w)(telegram_id \<mapsto> UserSession_init)\<rparr>
      | Some s \<Rightarrow> w)"

definition the_session :: "World \<Rightarrow> string \<Rightarrow> UserSession" where
  "the_session w telegram_id =
     (case sessions w telegram_id of None \<Rightarrow> UserSession_init | Some s \<Rightarrow> s)"

definition update_session :: "World \<Rightarrow> string \<Rightarrow> (UserSession \<Rightarrow> UserSession) \<Rightarrow> World" where
  "update_session w telegram_id f =
     w\<lparr>sessions := (sessions w)(telegram_id \<mapsto> f (the_session w telegram_id))\<rparr>"

definition set_state :: "World \<Rightarrow> string \<Rightarrow> UserState \<Rightarrow> World" where
  "set_state w telegram_id st = update_session w telegram_id (\<lambda>s. s\<lparr>state := st\<rparr>)"

definition get_ai_service :: "World \<Rightarrow> string \<Rightarrow> AIService \<times> World" where
  "get_ai_service w telegram_id =
     (case ai_services w telegram_id of
        None \<Rightarrow>
          (let svc = AIService_init (get_api_key (db w) telegram_id)
           in (svc, w\<lparr>ai_services := (ai_services w)(telegram_id \<mapsto> svc)\<rparr>))
      | Some svc \<Rightarrow> (svc, w))"

definition update_ai_service :: "World \<Rightarrow> string \<Rightarrow> string \<Rightarrow> World" where
  "update_ai_service w telegram_id key =
     (case ai_services w telegram_id of
        Some svc \<Rightarrow> w\<lparr>ai_services := (ai_services w)(telegram_id \<mapsto> setup_client svc key)\<rparr>
      | None \<Rightarrow> w\<lparr>ai_services := (ai_services w)(telegram_id \<mapsto> AIService_init (Some key))\<rparr>)"

text \<open>The truth value of an optional integer: \<open>None\<close> and \<open>0\<close> are false.\<close>

definition truthy :: "nat option \<Rightarrow> bool" where
  "truthy c = (case c of None \<Rightarrow> False | Some n \<Rightarrow> n \<noteq> 0)"

definition sm_create_conversation :: "World \<Rightarrow> string \<Rightarrow> nat option \<times> World" where
  "sm_create_conversation w telegram_id =
     (let (c, db') = create_conversation (db w) telegram_id;
          w1 = w\<lparr>db := db'\<rparr>
      in if truthy c
         then (c, update_session (get_user_session w1 telegram_id) telegram_id
                    (\<lambda>s. s\<lparr>conversation_id := c\<rparr>))
         else (c, w1))"

section \<open>The handlers (main.py)\<close>

text \<open>
  Sending a reply is recorded in the trace and taken to succeed. A handler returns the
  world afterwards, or raises what a callee raised.
\<close>

definition store_add_message :: "Env \<Rightarrow> World \<Rightarrow> nat \<Rightarrow> string \<Rightarrow> string option \<Rightarrow> World" where
  "store_add_message env w c r body =
     (emit w (Store_add_message c r body))
       \<lparr>db := snd (add_message (db w) (utcnow env (length (messages (db w)))) c r body)\<rparr>"

definition error_reply :: "Env \<Rightarrow> string \<Rightarrow> Event" where
  "error_reply env lang = Reply_text (get_message env lang ''error'' [(''error'', MSG_CANNOT_CREATE)])"

text \<open>
  \<open>handle_message\<close> is one function in the source; its chat branch is split in two
  here. \<open>chat_turn\<close> is the chat turn proper (lines 288 to 313), once the conversation
  is known: the placeholder, the user message into the store, the history and the
  settings out of it, the gateway, the answer into the store and to the user.
\<close>

definition chat_turn :: "Env \<Rightarrow> World \<Rightarrow> string \<Rightarrow> string \<Rightarrow> nat \<Rightarrow> string \<Rightarrow> World outcome" where
  "chat_turn env w telegram_id lang c message_text =
     (let w1 = emit w (Reply_text (get_message env lang ''processing'' []));
          w2 = store_add_message env w1 c ''user'' (Some message_text);
          msgs = get_conversation_messages (db w2) c;
          ai_params = map_option get_ai_params (get_user_settings (db w2) telegram_id);
          (svc, w3) = get_ai_service w2 telegram_id;
          w4 = emit w3 (Gateway_complete msgs ai_params)
      in case chat_completion env svc msgs ai_params of
           Raises e \<Rightarrow> Raises e
         | Returns response \<Rightarrow>
             Returns (emit (store_add_message env w4 c ''assistant'' response) (Edit_text response)))"

definition id_of :: "nat option \<Rightarrow> nat" where
  "id_of c = (case c of None \<Rightarrow> 0 | Some n \<Rightarrow> n)"

text \<open>
  Lines 279 to 286: the session's conversation is used when there is one, and created
  otherwise.
\<close>

definition chat_with_session :: "Env \<Rightarrow> World \<Rightarrow> string \<Rightarrow> string \<Rightarrow> string \<Rightarrow> World outcome" where
  "chat_with_session env w telegram_id lang message_text =
     (let c = conversation_id (the_session w telegram_id) in
      if \<not> truthy c then
        (let (c', w1) = sm_create_conversation w telegram_id in
         if \<not> truthy c' then Returns (emit w1 (error_reply env lang))
         else chat_turn env (update_session w1 telegram_id (\<lambda>s. s\<lparr>conversation_id := c'\<rparr>))
                telegram_id lang (id_of c') message_text)
      else chat_turn env w telegram_id lang (id_of c) message_text)"

text \<open>
  \<open>handle_message\<close>. A pending parameter name that is absent is Python's \<open>None\<close>, which
  is no key of the settings dictionary: \<open>set_user_param\<close> then returns false and changes
  nothing.
\<close>

definition handle_message :: "Env \<Rightarrow> World \<Rightarrow> string \<Rightarrow> string \<Rightarrow> World outcome" where
  "handle_message env w0 telegram_id message_text =
     (let w = get_user_session w0 telegram_id;
          st = state (the_session w telegram_id);
          lang = get_language (db w) telegram_id
      in if st = WAITING_API_KEY then
           (let key = strip message_text;
                w1 = emit w (Reply_text (get_message env lang ''processing'' []));
                w2 = emit w1 (Gateway_validate key)
            in case validate_api_key env key of
                 Raises e \<Rightarrow> Raises e
               | Returns is_valid \<Rightarrow>
                   if is_valid then
                     (let w3 = w2\<lparr>db := snd (set_api_key (db w2) telegram_id key)\<rparr>;
                          w4 = update_ai_service w3 telegram_id key;
                          (c, w5) = sm_create_conversation w4 telegram_id;
                          w6 = set_state w5 telegram_id CHATTING
                      in Returns (emit w6 (Edit_text (Some (get_message env lang ''api_set_success'' [])))))
                   else Returns (emit w2 (Edit_text (Some (get_message env lang ''api_invalid'' [])))))
         else if st = WAITING_PARAM_VALUE then
           (let param = temp_data (the_session w telegram_id) ''param'';
                val = strip message_text;
                (success, db') = (case param of
                                    None \<Rightarrow> (False, db w)
                                  | Some p \<Rightarrow> set_user_param (db w) telegram_id p val);
                w1 = w\<lparr>db := db'\<rparr>;
                w2 = (if success
                      then emit w1 (Reply_text (get_message env lang ''params_set_success''
                                      [(''param'', case param of None \<Rightarrow> ''None'' | Some p \<Rightarrow> p),
                                       (''value'', val)]))
                      else emit w1 (Reply_text (get_message env lang ''params_invalid'' [])));
                w3 = set_state w2 telegram_id IDLE;
                w4 = update_session w3 telegram_id (\<lambda>s. s\<lparr>temp_data := Map.empty\<rparr>)
            in Returns w4)
         else if st = CHATTING \<or> st = IDLE then
           (if st = IDLE then
              (let (c, w1) = sm_create_conversation w telegram_id in
               if \<not> truthy c then Returns (emit w1 (error_reply env lang))
               else chat_with_session env (set_state w1 telegram_id CHATTING)
                      telegram_id lang message_text)
            else chat_with_session env w telegram_id lang message_text)
         else Returns w)"

text \<open>\<open>setapi_command\<close> and the callback of the language keyboard.\<close>

definition setapi_command :: "Env \<Rightarrow> World \<Rightarrow> string \<Rightarrow> World" where
  "setapi_command env w telegram_id =
     (let lang = get_language (db w) telegram_id;
          w1 = emit w (Reply_text (get_message env lang ''api_request'' []));
          w2 = get_user_session w1 telegram_id
      in set_state w2 telegram_id WAITING_API_KEY)"

definition handle_language_selection :: "Env \<Rightarrow> World \<Rightarrow> string \<Rightarrow> string \<Rightarrow> World" where
  "handle_language_selection env w telegram_id callback_data =
     (let w1 = emit w Answer_callback in
      if take 5 callback_data = ''lang_'' then
        (let lang_code = drop 5 callback_data;
             w2 = w1\<lparr>db := snd (set_language (db w1) telegram_id lang_code)\<rparr>;
             w3 = emit w2 (Edit_text (Some (get_message env lang_code ''language_set'' [])));
             w4 = get_user_session w3 telegram_id
         in set_state w4 telegram_id IDLE)
      else w1)"

section \<open>Concrete inputs\<close>

text \<open>
  A service that accepts the key \<open>sk-good\<close> only and answers every request with one
  choice, a clock that ticks with every row, and a renderer that returns the message key.
\<close>

definition demo_env :: Env where
  "demo_env =
     \<lparr>utcnow = (\<lambda>k. int k),
      models_list = (\<lambda>key. if key = ''sk-good'' then Returns () else Raises (APIError ''401'')),
      completions_create = (\<lambda>key req. Returns [Some ''hi there'']),
      get_message = (\<lambda>lang key args. key)\<rparr>"

text \<open>A store with one user, who owns conversation 1, and the empty store.\<close>

definition demo_db :: Database where
  "demo_db =
     \<lparr>users = [''42'' \<mapsto> (User_init 1 ''en'')\<lparr>api_key := Some ''sk-good''\<rparr>],
      conversations = [\<lparr>conv_id = 1, user_id = 1\<rparr>],
      messages = []\<rparr>"

definition empty_db :: Database where
  "empty_db = \<lparr>users = Map.empty, conversations = [], messages = []\<rparr>"

definition demo_world :: "UserState \<Rightarrow> nat option \<Rightarrow> World" where
  "demo_world st c =
     \<lparr>db = demo_db,
      sessions = [''42'' \<mapsto> \<lparr>state = st, conversation_id = c, temp_data = Map.empty\<rparr>],
      ai_services = Map.empty,
      trace = []\<rparr>"

definition fresh_world :: World where
  "fresh_world = \<lparr>db = empty_db, sessions = Map.empty, ai_services = Map.empty, trace = []\<rparr>"

text \<open>The same service, answering with one choice that carries no text.\<close>

definition silent_env :: Env where
  "silent_env = demo_env\<lparr>completions_create := (\<lambda>key req. Returns [None])\<rparr>"

text \<open>A clock that is set back between any two readings, and one that advances.\<close>

definition backward_clock :: "nat \<Rightarrow> int" where
  "backward_clock k = - int k"

definition forward_clock :: "nat \<Rightarrow> int" where
  "forward_clock k = int k"


section \<open>The store keeps the order of the messages\<close>

lemma sort_key_snoc:
  "\<forall>y\<in>set xs. f y \<le> f x \<Longrightarrow> sort_key f (xs @ [x]) = sort_key f xs @ [x]"
proof (induction xs)
  case Nil
  then show ?case by simp
next
  case (Cons a xs)
  have ins: "insort_key f a (ys @ [x]) = insort_key f a ys @ [x]" if "f a \<le> f x" for ys
    using that by (induction ys) auto
  from Cons show ?case by (simp add: ins)
qed

lemma find_conversation_add_message:
  "find_conversation (snd (add_message d now c r body)) c' = find_conversation d c'"
  by (simp add: add_message_def find_conversation_def split: option.splits)

lemma messages_add_message:
  "find_conversation d c \<noteq> None \<Longrightarrow>
   messages (snd (add_message d now c r body)) =
   messages d @ [\<lparr>msg_conversation_id = c, role = r, content = body, timestamp = now\<rparr>]"
  by (auto simp add: add_message_def split: option.splits)

lemma find_conversation_id:
  "find_conversation d c = Some cv \<Longrightarrow> conv_id cv = c"
  by (auto simp: find_conversation_def find_Some_iff)

lemma get_after_add:
  assumes ex: "find_conversation d c = Some cv"
    and late: "\<forall>m\<in>set (messages d). msg_conversation_id m = c \<longrightarrow> timestamp m \<le> now"
  shows "get_conversation_messages (snd (add_message d now c r body)) c =
         get_conversation_messages d c @ [(r, body)]"
  using ex late find_conversation_id [OF ex]
  by (simp add: get_conversation_messages_def find_conversation_add_message
      get_messages_for_api_def conversation_messages_def messages_add_message sort_key_snoc)

text \<open>
  C6, as stated, fails: the history is read back sorted by the timestamp taken from the
  wall clock at insertion, so when the clock is set back between two appends the later
  message is returned first.
\<close>

theorem history_order_counterexample:
  "get_conversation_messages
     (add_messages backward_clock demo_db 1 [(''user'', Some ''a''), (''assistant'', Some ''b'')]) 1
   = [(''assistant'', Some ''b''), (''user'', Some ''a'')]"
  by (simp add: backward_clock_def demo_db_def add_message_def find_conversation_def
      get_conversation_messages_def get_messages_for_api_def conversation_messages_def)

text \<open>
  C6, amended: for a conversation of the store, when the clock readings taken at the
  successive appends are strictly increasing and later than the timestamps of the
  messages the conversation already has, \<open>get_conversation_messages\<close> returns the earlier
  history followed by exactly the appended messages, in call order, with role and
  content unchanged. For a new conversation that is exactly the appended messages.
\<close>

theorem history_order_increasing_clock:
  assumes "find_conversation d c \<noteq> None"
    and "\<forall>m\<in>set (messages d). msg_conversation_id m = c \<longrightarrow>
           timestamp m < clock (length (messages d))"
    and "\<forall>i j. length (messages d) \<le> i \<and> i < j \<and> j < length (messages d) + length calls \<longrightarrow>
           clock i < clock j"
  shows "get_conversation_messages (add_messages clock d c calls) c =
         get_conversation_messages d c @ calls"
  using assms
proof (induction calls arbitrary: d)
  case Nil
  then show ?case by simp
next
  case (Cons call calls)
  obtain r body where call: "call = (r, body)" by (cases call)
  obtain cv where cv: "find_conversation d c = Some cv" using Cons.prems(1) by auto
  let ?n = "length (messages d)"
  let ?d' = "snd (add_message d (clock ?n) c r body)"
  have msgs: "messages ?d' = messages d @
      [\<lparr>msg_conversation_id = c, role = r, content = body, timestamp = clock ?n\<rparr>]"
    using Cons.prems(1) by (rule messages_add_message)
  have len: "length (messages ?d') = Suc ?n" by (simp add: msgs)
  have step: "get_conversation_messages ?d' c = get_conversation_messages d c @ [(r, body)]"
    using cv Cons.prems(2) by (intro get_after_add) auto
  have p1: "find_conversation ?d' c \<noteq> None"
    using Cons.prems(1) by (simp add: find_conversation_add_message)
  have mono: "clock i < clock j" if "?n \<le> i" "i < j" "j < ?n + Suc (length calls)" for i j
    using Cons.prems(3) that by simp
  show ?case
  proof (cases calls)
    case Nil
    then show ?thesis using step call by simp
  next
    case later: (Cons a rest)
    have lt: "clock ?n < clock (Suc ?n)"
      using mono [of ?n "Suc ?n"] later by simp
    have p2: "\<forall>m\<in>set (messages ?d'). msg_conversation_id m = c \<longrightarrow>
                timestamp m < clock (length (messages ?d'))"
      unfolding len msgs using Cons.prems(2) lt by auto
    have p3: "\<forall>i j. length (messages ?d') \<le> i \<and> i < j \<and>
                j < length (messages ?d') + length calls \<longrightarrow> clock i < clock j"
      unfolding len using mono by simp
    have "get_conversation_messages (add_messages clock ?d' c calls) c =
          get_conversation_messages ?d' c @ calls"
      using p1 p2 p3 by (rule Cons.IH)
    then show ?thesis using step call by simp
  qed
qed

theorem history_order_increasing_clock_witness:
  "find_conversation demo_db 1 \<noteq> None \<and>
   get_conversation_messages
     (add_messages forward_clock demo_db 1 [(''user'', Some ''a''), (''assistant'', Some ''b'')]) 1
   = [(''user'', Some ''a''), (''assistant'', Some ''b'')]"
  using history_order_increasing_clock
    [of demo_db 1 forward_clock "[(''user'', Some ''a''), (''assistant'', Some ''b'')]"]
  by (simp add: forward_clock_def demo_db_def find_conversation_def
      get_conversation_messages_def get_messages_for_api_def conversation_messages_def)

section \<open>The gateway returns and does not raise\<close>

text \<open>
  C8: \<open>validate_api_key\<close> returns a boolean whatever the service does and raises
  nothing: it returns false when the authenticated call fails with any exception, and
  true when the call succeeds.
\<close>

theorem validate_api_key_total:
  "is_Returns (validate_api_key env key) \<and>
   (\<forall>e. models_list env key = Raises e \<longrightarrow> validate_api_key env key = Returns False) \<and>
   (\<forall>u. models_list env key = Returns u \<longrightarrow> validate_api_key env key = Returns True)"
  by (simp add: validate_api_key_def split: outcome.splits exn.splits)

theorem validate_api_key_total_witness:
  "models_list demo_env ''sk-bad'' = Raises (APIError ''401'') \<and>
   validate_api_key demo_env ''sk-bad'' = Returns False"
  using validate_api_key_total [of demo_env "''sk-bad''"] by (simp add: demo_env_def)

lemma error_texts_distinct:
  "MSG_NO_CHOICES \<noteq> MSG_API_ERROR @ m"
  "MSG_NO_CHOICES \<noteq> MSG_REQUEST_ERROR @ m"
  "MSG_API_ERROR @ m \<noteq> MSG_REQUEST_ERROR @ m'"
  by (simp_all add: MSG_NO_CHOICES_def MSG_API_ERROR_def MSG_REQUEST_ERROR_def)

text \<open>
  C7, as stated, fails: the first choice's content is optional, and when the service
  answers with a choice without text \<open>chat_completion\<close> returns \<open>None\<close>, which is no string.
\<close>

theorem chat_completion_none_counterexample:
  "chat_completion silent_env (AIService_init (Some ''sk-good'')) [(''user'', Some ''hello'')] None
   = Returns None"
  by (simp add: chat_completion_def silent_env_def demo_env_def AIService_init_def setup_client_def)

text \<open>
  C7, amended: \<open>chat_completion\<close> never raises and always returns: the text asking for a
  key when the service object has no client; the no-choices text when the service
  returns no choice; the content of the first choice otherwise, a string or, when that
  choice carries no text, \<open>None\<close>; the API-error text followed by the error when the
  call raises the library's error; the request-error text followed by the error when
  it raises anything else. The three error texts differ from each other whatever the
  errors are.
\<close>

theorem chat_completion_total:
  "is_Returns (chat_completion env svc msgs ps) \<and>
   (client svc = None \<longrightarrow> chat_completion env svc msgs ps = Returns (Some MSG_NO_CLIENT)) \<and>
   (\<forall>key. client svc = Some key \<longrightarrow>
      (completions_create env key (build_request msgs ps) = Returns [] \<longrightarrow>
         chat_completion env svc msgs ps = Returns (Some MSG_NO_CHOICES)) \<and>
      (\<forall>choice others.
         completions_create env key (build_request msgs ps) = Returns (choice # others) \<longrightarrow>
         chat_completion env svc msgs ps = Returns choice) \<and>
      (\<forall>m. completions_create env key (build_request msgs ps) = Raises (APIError m) \<longrightarrow>
         chat_completion env svc msgs ps = Returns (Some (MSG_API_ERROR @ m))) \<and>
      (\<forall>m. completions_create env key (build_request msgs ps) = Raises (OtherException m) \<longrightarrow>
         chat_completion env svc msgs ps = Returns (Some (MSG_REQUEST_ERROR @ m)))) \<and>
   (\<forall>m m'. MSG_NO_CHOICES \<noteq> MSG_API_ERROR @ m \<and> MSG_NO_CHOICES \<noteq> MSG_REQUEST_ERROR @ m \<and>
           MSG_API_ERROR @ m \<noteq> MSG_REQUEST_ERROR @ m')"
  by (simp add: chat_completion_def error_texts_distinct
      split: option.splits outcome.splits exn.splits list.splits)

theorem chat_completion_total_witness:
  "client (AIService_init (Some ''sk-good'')) = Some ''sk-good'' \<and>
   completions_create demo_env ''sk-good'' (build_request [(''user'', Some ''hello'')] None)
     = Returns [Some ''hi there''] \<and>
   chat_completion demo_env (AIService_init (Some ''sk-good'')) [(''user'', Some ''hello'')] None
     = Returns (Some ''hi there'')"
  using chat_completion_total
    [of demo_env "AIService_init (Some ''sk-good'')" "[(''user'', Some ''hello'')]" None]
  by (simp add: demo_env_def AIService_init_def setup_client_def)

section \<open>Setting one parameter\<close>












section \<open>The handlers: sessions, store and trace\<close>

text \<open>How the operations on the world change the session, the store and the trace.\<close>

lemma get_user_session_known:
  "sessions w tid = Some s \<Longrightarrow> get_user_session w tid = w"
  by (simp add: get_user_session_def)

lemma the_session_known:
  "sessions w tid = Some s \<Longrightarrow> the_session w tid = s"
  by (simp add: the_session_def)

lemma the_session_get_user_session [simp]:
  "the_session (get_user_session w tid) tid' = the_session w tid'"
  by (simp add: the_session_def get_user_session_def split: option.splits)

lemma the_session_update_session [simp]:
  "the_session (update_session w tid f) tid = f (the_session w tid)"
  by (simp add: the_session_def update_session_def)

lemma the_session_set_state [simp]:
  "the_session (set_state w tid st) tid = (the_session w tid)\<lparr>state := st\<rparr>"
  by (simp add: set_state_def)

lemma the_session_emit [simp]: "the_session (emit w ev) tid = the_session w tid"
  by (simp add: the_session_def emit_def)

lemma the_session_db_update [simp]: "the_session (w\<lparr>db := d\<rparr>) tid = the_session w tid"
  by (simp add: the_session_def)

lemma the_session_services_update [simp]:
  "the_session (w\<lparr>ai_services := a\<rparr>) tid = the_session w tid"
  by (simp add: the_session_def)

lemma db_simps [simp]:
  "db (emit w ev) = db w"
  "db (update_session w tid f) = db w"
  "db (set_state w tid st) = db w"
  "db (get_user_session w tid) = db w"
  by (simp_all add: emit_def update_session_def set_state_def get_user_session_def split: option.splits)

lemma trace_simps [simp]:
  "trace (emit w ev) = trace w @ [ev]"
  "trace (update_session w tid f) = trace w"
  "trace (set_state w tid st) = trace w"
  "trace (get_user_session w tid) = trace w"
  by (simp_all add: emit_def update_session_def set_state_def get_user_session_def split: option.splits)


lemma users_add_message [simp]: "users (snd (add_message d now c r body)) = users d"
  by (simp add: add_message_def split: option.splits)

lemma conversations_add_message [simp]:
  "conversations (snd (add_message d now c r body)) = conversations d"
  by (simp add: add_message_def split: option.splits)

lemma get_user_settings_add_message [simp]:
  "get_user_settings (snd (add_message d now c r body)) tid = get_user_settings d tid"
  by (simp add: get_user_settings_def)

lemma get_api_key_add_message [simp]:
  "get_api_key (snd (add_message d now c r body)) tid = get_api_key d tid"
  by (simp add: get_api_key_def)

lemma get_language_add_message [simp]:
  "get_language (snd (add_message d now c r body)) tid = get_language d tid"
  by (simp add: get_language_def)

lemma store_add_message_simps [simp]:
  "db (store_add_message env w c r body) =
     snd (add_message (db w) (utcnow env (length (messages (db w)))) c r body)"
  "trace (store_add_message env w c r body) = trace w @ [Store_add_message c r body]"
  "sessions (store_add_message env w c r body) = sessions w"
  "ai_services (store_add_message env w c r body) = ai_services w"
  by (simp_all add: store_add_message_def emit_def)

lemma emit_simps [simp]:
  "sessions (emit w ev) = sessions w"
  "ai_services (emit w ev) = ai_services w"
  by (simp_all add: emit_def)

lemma get_ai_service_snd [simp]:
  "db (snd (get_ai_service w tid)) = db w"
  "trace (snd (get_ai_service w tid)) = trace w"
  "sessions (snd (get_ai_service w tid)) = sessions w"
  by (simp_all add: get_ai_service_def Let_def split: option.splits)

lemma get_ai_service_fst_cong:
  "ai_services w' = ai_services w \<Longrightarrow> get_api_key (db w') tid = get_api_key (db w) tid \<Longrightarrow>
   fst (get_ai_service w' tid) = fst (get_ai_service w tid)"
  by (simp add: get_ai_service_def Let_def split: option.splits)

lemma chat_completion_returns:
  "\<exists>response. chat_completion env svc msgs ps = Returns response"
  by (simp add: chat_completion_def split: option.splits outcome.splits exn.splits list.splits)

lemma the_session_sessions_cong:
  "sessions w' = sessions w \<Longrightarrow> the_session w' tid = the_session w tid"
  by (simp add: the_session_def)

lemma chat_turn_result:
  fixes env w tid c inbound
  defines "d1 \<equiv> snd (add_message (db w) (utcnow env (length (messages (db w)))) c ''user'' (Some inbound))"
  defines "msgs \<equiv> get_conversation_messages d1 c"
  defines "ps \<equiv> map_option get_ai_params (get_user_settings (db w) tid)"
  assumes resp: "chat_completion env (fst (get_ai_service w tid)) msgs ps = Returns response"
  shows "\<exists>w'. chat_turn env w tid lang c inbound = Returns w' \<and>
           trace w' = trace w @
             [Reply_text (get_message env lang ''processing'' []),
              Store_add_message c ''user'' (Some inbound),
              Gateway_complete msgs ps,
              Store_add_message c ''assistant'' response,
              Edit_text response] \<and>
           db w' = snd (add_message d1 (utcnow env (length (messages d1))) c ''assistant'' response) \<and>
           sessions w' = sessions w"
proof -
  let ?w2 = "store_add_message env (emit w (Reply_text (get_message env lang ''processing'' [])))
               c ''user'' (Some inbound)"
  have d2: "db ?w2 = d1" by (simp add: d1_def)
  have svc: "fst (get_ai_service ?w2 tid) = fst (get_ai_service w tid)"
    by (rule get_ai_service_fst_cong) (simp_all add: d1_def)
  obtain svc' w3 where g: "get_ai_service ?w2 tid = (svc', w3)"
    by (cases "get_ai_service ?w2 tid")
  have svc': "svc' = fst (get_ai_service w tid)" using svc g by simp
  have w3: "db w3 = d1" "trace w3 = trace ?w2" "sessions w3 = sessions w"
    using get_ai_service_snd [of ?w2 tid] g d2 by simp_all
  have settings: "get_user_settings d1 tid = get_user_settings (db w) tid"
    by (simp add: d1_def)
  show ?thesis
    unfolding chat_turn_def
    using resp [unfolded msgs_def ps_def d1_def] w3 [unfolded d1_def]
    by (simp add: Let_def g svc' d1_def msgs_def ps_def)
qed


lemma fold_max_upper: "a \<le> fold max xs a \<and> (\<forall>x\<in>set xs. x \<le> fold max xs (a::nat))"
proof (induction xs arbitrary: a)
  case Nil
  show ?case by simp
next
  case (Cons y ys)
  have "max y a \<le> fold max ys (max y a)" and "\<forall>x\<in>set ys. x \<le> fold max ys (max y a)"
    using Cons.IH [of "max y a"] by simp_all
  then show ?case by auto
qed

lemma next_conv_id_fresh: "next_conv_id cs \<notin> conv_id ` set cs"
proof
  assume "next_conv_id cs \<in> conv_id ` set cs"
  then have "next_conv_id cs \<in> set (map conv_id cs)" by simp
  then have "next_conv_id cs \<le> fold max (map conv_id cs) 0"
    using fold_max_upper [of 0 "map conv_id cs"] by blast
  then show False by (simp add: next_conv_id_def)
qed

lemma find_conv_snoc:
  "n \<notin> conv_id ` set cs \<Longrightarrow> conv_id y = n \<Longrightarrow> find (\<lambda>x. conv_id x = n) (cs @ [y]) = Some y"
  by (induction cs) auto

lemma find_conversation_new:
  "find_conversation (d\<lparr>conversations := conversations d @
      [\<lparr>conv_id = next_conv_id (conversations d), user_id = u\<rparr>]\<rparr>) (next_conv_id (conversations d))
   = Some \<lparr>conv_id = next_conv_id (conversations d), user_id = u\<rparr>"
  unfolding find_conversation_def
  by (simp add: find_conv_snoc next_conv_id_fresh)

lemma sm_create_conversation_known:
  assumes "users (db w) tid = Some user"
  shows "sm_create_conversation w tid =
           (Some (next_conv_id (conversations (db w))),
            update_session
              (get_user_session
                 (w\<lparr>db := (db w)\<lparr>conversations := conversations (db w) @
                    [\<lparr>conv_id = next_conv_id (conversations (db w)), user_id = uid user\<rparr>]\<rparr>\<rparr>) tid)
              tid (\<lambda>s. s\<lparr>conversation_id := Some (next_conv_id (conversations (db w)))\<rparr>))"
  using assms
  by (simp add: sm_create_conversation_def create_conversation_def truthy_def next_conv_id_def Let_def)

lemma sm_create_conversation_unknown:
  assumes "users (db w) tid = None"
  shows "sm_create_conversation w tid = (None, w)"
  using assms
  by (simp add: sm_create_conversation_def create_conversation_def truthy_def Let_def)

lemma ai_services_simps [simp]:
  "ai_services (update_session w tid f) = ai_services w"
  "ai_services (set_state w tid st) = ai_services w"
  "ai_services (get_user_session w tid) = ai_services w"
  by (simp_all add: update_session_def set_state_def get_user_session_def split: option.splits)

lemmas eval_defs = handle_message_def chat_with_session_def chat_turn_def store_add_message_def
  error_reply_def sm_create_conversation_def create_conversation_def next_conv_id_def truthy_def
  id_of_def emit_def get_user_session_def the_session_def update_session_def set_state_def
  get_ai_service_def update_ai_service_def AIService_init_def setup_client_def
  validate_api_key_def chat_completion_def add_message_def find_conversation_def
  get_conversation_messages_def get_messages_for_api_def conversation_messages_def
  get_user_settings_def get_api_key_def set_api_key_def get_language_def set_language_def
  setapi_command_def strip_def str_isspace_def
  demo_env_def demo_db_def empty_db_def demo_world_def fresh_world_def User_init_def
  DEFAULT_LANGUAGE_def UserSession_init_def Let_def

lemmas world_defs = emit_def get_user_session_def the_session_def update_session_def set_state_def

section \<open>The chat turn\<close>

text \<open>
  C1: for every user in \<open>CHATTING\<close> state whose session is bound to a conversation of
  the store (identifiers start at 1, so the handle is not 0), a free-text message
  returns, and in this order: the placeholder is sent, the inbound text is appended to
  that conversation as a \<open>user\<close> message, the gateway is invoked on the history read back
  after that append (which contains the inbound text) and the stored parameters, what
  the gateway returns is appended as an \<open>assistant\<close> message, and the placeholder is
  replaced by exactly what the gateway returned. The session is left as it was.
\<close>

theorem chatting_turn:
  fixes env w tid c inbound
  defines "n \<equiv> length (messages (db w))"
  defines "d1 \<equiv> snd (add_message (db w) (utcnow env n) c ''user'' (Some inbound))"
  defines "msgs \<equiv> get_conversation_messages d1 c"
  defines "ps \<equiv> map_option get_ai_params (get_user_settings (db w) tid)"
  assumes sess: "sessions w tid = Some s"
    and st: "state s = CHATTING"
    and bound: "conversation_id s = Some c" "c \<noteq> 0"
    and ex: "find_conversation (db w) c \<noteq> None"
  shows "\<exists>response w'.
           chat_completion env (fst (get_ai_service w tid)) msgs ps = Returns response \<and>
           handle_message env w tid inbound = Returns w' \<and>
           trace w' = trace w @
             [Reply_text (get_message env (get_language (db w) tid) ''processing'' []),
              Store_add_message c ''user'' (Some inbound),
              Gateway_complete msgs ps,
              Store_add_message c ''assistant'' response,
              Edit_text response] \<and>
           (''user'', Some inbound) \<in> set msgs \<and>
           messages (db w') = messages (db w) @
             [\<lparr>msg_conversation_id = c, role = ''user'', content = Some inbound,
               timestamp = utcnow env n\<rparr>,
              \<lparr>msg_conversation_id = c, role = ''assistant'', content = response,
               timestamp = utcnow env (Suc n)\<rparr>] \<and>
           the_session w' tid = s"
proof -
  obtain response where
    resp: "chat_completion env (fst (get_ai_service w tid)) msgs ps = Returns response"
    using chat_completion_returns by blast
  obtain w' where turn: "chat_turn env w tid (get_language (db w) tid) c inbound = Returns w'"
    and tr: "trace w' = trace w @
             [Reply_text (get_message env (get_language (db w) tid) ''processing'' []),
              Store_add_message c ''user'' (Some inbound),
              Gateway_complete msgs ps,
              Store_add_message c ''assistant'' response,
              Edit_text response]"
    and dw': "db w' = snd (add_message d1 (utcnow env (length (messages d1))) c ''assistant'' response)"
    and sw': "sessions w' = sessions w"
    using chat_turn_result [OF resp [unfolded msgs_def ps_def d1_def n_def]]
    unfolding msgs_def ps_def d1_def n_def by blast
  have m1: "messages d1 = messages (db w) @
      [\<lparr>msg_conversation_id = c, role = ''user'', content = Some inbound, timestamp = utcnow env n\<rparr>]"
    unfolding d1_def using ex by (rule messages_add_message)
  have ex1: "find_conversation d1 c \<noteq> None"
    unfolding d1_def using ex by (simp add: find_conversation_add_message)
  have m2: "messages (db w') = messages d1 @
      [\<lparr>msg_conversation_id = c, role = ''assistant'', content = response,
        timestamp = utcnow env (length (messages d1))\<rparr>]"
    unfolding dw' using ex1 by (rule messages_add_message)
  have len1: "length (messages d1) = Suc n" by (simp add: m1 n_def)
  obtain cv where cv: "find_conversation d1 c = Some cv" using ex1 by auto
  have inmsgs: "(''user'', Some inbound) \<in> set msgs"
    unfolding msgs_def get_conversation_messages_def
    using cv find_conversation_id [OF cv]
    by (simp add: get_messages_for_api_def conversation_messages_def m1 image_iff)
  have hm: "handle_message env w tid inbound = Returns w'"
    unfolding handle_message_def chat_with_session_def
    using turn
    by (simp add: get_user_session_known [OF sess] the_session_known [OF sess] st bound
        truthy_def id_of_def Let_def)
  have ts: "the_session w' tid = s"
    using the_session_sessions_cong [OF sw', of tid] the_session_known [OF sess] by simp
  show ?thesis
    using resp hm tr inmsgs m2 ts by (simp add: m1 len1 n_def)
qed

theorem chatting_turn_witness:
  "sessions (demo_world CHATTING (Some 1)) ''42'' =
     Some \<lparr>state = CHATTING, conversation_id = Some 1, temp_data = Map.empty\<rparr> \<and>
   find_conversation (db (demo_world CHATTING (Some 1))) 1 \<noteq> None \<and>
   is_Returns (handle_message demo_env (demo_world CHATTING (Some 1)) ''42'' ''hello'') \<and>
   map content (messages (db
     (result (handle_message demo_env (demo_world CHATTING (Some 1)) ''42'' ''hello''))))
     = [Some ''hello'', Some ''hi there''] \<and>
   last (trace (result (handle_message demo_env (demo_world CHATTING (Some 1)) ''42'' ''hello'')))
     = Edit_text (Some ''hi there'')"
  using chatting_turn
    [where w = "demo_world CHATTING (Some 1)" and tid = "''42''" and c = 1 and env = demo_env
       and inbound = "''hello''"
       and s = "\<lparr>state = CHATTING, conversation_id = Some 1, temp_data = Map.empty\<rparr>"]
  by (auto simp add: demo_world_def demo_db_def demo_env_def find_conversation_def
      get_ai_service_def get_api_key_def User_init_def AIService_init_def setup_client_def
      chat_completion_def Let_def)

text \<open>
  C3, as stated, fails: in \<open>IDLE\<close> state the handler asks the store for a new
  conversation before it looks at the session's handle, so a session already bound to
  conversation 1 is bound to the new conversation 2 afterwards and the store holds
  both.
\<close>

theorem idle_turn_counterexample:
  "conversation_id (the_session (demo_world IDLE (Some 1)) ''42'') = Some 1 \<and>
   is_Returns (handle_message demo_env (demo_world IDLE (Some 1)) ''42'' ''hello'') \<and>
   conversation_id (the_session
     (result (handle_message demo_env (demo_world IDLE (Some 1)) ''42'' ''hello'')) ''42'') = Some 2 \<and>
   map conv_id (conversations (db
     (result (handle_message demo_env (demo_world IDLE (Some 1)) ''42'' ''hello'')))) = [1, 2]"
  by (simp add: eval_defs)

text \<open>
  C3, amended: for every user known to the store whose session is in \<open>IDLE\<close> state,
  whether or not the session already holds a conversation handle, a free-text message
  creates a new conversation owned by that user, with an identifier no conversation of
  the store had, binds it to the session in place of any earlier handle, moves the
  session to \<open>CHATTING\<close>, and runs the chat turn on the new conversation: the two
  messages of the turn belong to it.
\<close>

theorem idle_turn_new_conversation:
  fixes env w tid inbound
  defines "new \<equiv> next_conv_id (conversations (db w))"
  assumes sess: "sessions w tid = Some s"
    and st: "state s = IDLE"
    and known: "users (db w) tid = Some user"
  shows "\<exists>w'. handle_message env w tid inbound = Returns w' \<and>
           conversations (db w') = conversations (db w) @ [\<lparr>conv_id = new, user_id = uid user\<rparr>] \<and>
           new \<notin> conv_id ` set (conversations (db w)) \<and>
           conversation_id (the_session w' tid) = Some new \<and>
           state (the_session w' tid) = CHATTING \<and>
           map msg_conversation_id (drop (length (messages (db w))) (messages (db w'))) = [new, new]"
proof -
  let ?d0 = "(db w)\<lparr>conversations := conversations (db w) @ [\<lparr>conv_id = new, user_id = uid user\<rparr>]\<rparr>"
  let ?w1 = "update_session (get_user_session (w\<lparr>db := ?d0\<rparr>) tid) tid
               (\<lambda>s. s\<lparr>conversation_id := Some new\<rparr>)"
  let ?w2 = "set_state ?w1 tid CHATTING"
  have create: "sm_create_conversation w tid = (Some new, ?w1)"
    unfolding new_def using known by (rule sm_create_conversation_known)
  have new0: "new \<noteq> 0" by (simp add: new_def next_conv_id_def)
  have dw2: "db ?w2 = ?d0" by simp
  have s2: "the_session ?w2 tid = s\<lparr>conversation_id := Some new, state := CHATTING\<rparr>"
    by (simp add: the_session_known [OF sess])
  have fc: "find_conversation ?d0 new = Some \<lparr>conv_id = new, user_id = uid user\<rparr>"
    unfolding new_def by (rule find_conversation_new)
  have ex: "find_conversation (db ?w2) new \<noteq> None"
    by (simp add: fc)
  have lang: "get_language (db ?w2) tid = get_language (db w) tid"
    by (simp add: get_language_def)
  obtain response where
    resp: "chat_completion env (fst (get_ai_service ?w2 tid))
             (get_conversation_messages
                (snd (add_message (db ?w2) (utcnow env (length (messages (db ?w2)))) new ''user''
                        (Some inbound))) new)
             (map_option get_ai_params (get_user_settings (db ?w2) tid)) = Returns response"
    using chat_completion_returns by blast
  let ?d1 = "snd (add_message (db ?w2) (utcnow env (length (messages (db ?w2)))) new ''user''
                        (Some inbound))"
  obtain w' where turn: "chat_turn env ?w2 tid (get_language (db w) tid) new inbound = Returns w'"
    and dw': "db w' = snd (add_message ?d1 (utcnow env (length (messages ?d1))) new ''assistant'' response)"
    and sw': "sessions w' = sessions ?w2"
    using chat_turn_result [OF resp, of "get_language (db w) tid"] by blast
  have m1: "messages ?d1 = messages (db w) @
      [\<lparr>msg_conversation_id = new, role = ''user'', content = Some inbound,
        timestamp = utcnow env (length (messages (db ?w2)))\<rparr>]"
    using messages_add_message [OF ex] by simp
  have ex1: "find_conversation ?d1 new \<noteq> None"
    unfolding find_conversation_add_message by (rule ex)
  have m2: "messages (db w') = messages ?d1 @
      [\<lparr>msg_conversation_id = new, role = ''assistant'', content = response,
        timestamp = utcnow env (length (messages ?d1))\<rparr>]"
    unfolding dw' using ex1 by (rule messages_add_message)
  have convs: "conversations (db w') = conversations (db w) @ [\<lparr>conv_id = new, user_id = uid user\<rparr>]"
    unfolding dw' by simp
  have ts: "the_session w' tid = s\<lparr>conversation_id := Some new, state := CHATTING\<rparr>"
    using the_session_sessions_cong [OF sw', of tid] s2 by simp
  have hm: "handle_message env w tid inbound = Returns w'"
    unfolding handle_message_def chat_with_session_def
    using turn
    by (simp add: get_user_session_known [OF sess] the_session_known [OF sess] st create
        truthy_def id_of_def new0 s2 Let_def)
  have fresh: "new \<notin> conv_id ` set (conversations (db w))"
    unfolding new_def by (rule next_conv_id_fresh)
  have tail: "map msg_conversation_id (drop (length (messages (db w))) (messages (db w'))) = [new, new]"
    using m1 m2 by simp
  have stc: "state (the_session w' tid) = CHATTING"
    and cid: "conversation_id (the_session w' tid) = Some new"
    using ts by simp_all
  show ?thesis
    by (rule exI [of _ w']) (intro conjI hm convs fresh cid stc tail)
qed

theorem idle_turn_new_conversation_witness:
  "sessions (demo_world IDLE (Some 1)) ''42'' =
     Some \<lparr>state = IDLE, conversation_id = Some 1, temp_data = Map.empty\<rparr> \<and>
   users (db (demo_world IDLE (Some 1))) ''42'' \<noteq> None \<and>
   is_Returns (handle_message demo_env (demo_world IDLE (Some 1)) ''42'' ''hello'') \<and>
   conversation_id (the_session
     (result (handle_message demo_env (demo_world IDLE (Some 1)) ''42'' ''hello'')) ''42'') = Some 2 \<and>
   state (the_session
     (result (handle_message demo_env (demo_world IDLE (Some 1)) ''42'' ''hello'')) ''42'') = CHATTING"
  using idle_turn_new_conversation
    [where w = "demo_world IDLE (Some 1)" and tid = "''42''" and env = demo_env
       and inbound = "''hello''"
       and s = "\<lparr>state = IDLE, conversation_id = Some 1, temp_data = Map.empty\<rparr>"
       and user = "(User_init 1 ''en'')\<lparr>api_key := Some ''sk-good''\<rparr>"]
  by (auto simp add: demo_world_def demo_db_def next_conv_id_def)

text \<open>For a user the store does not know the turn fails with the error reply.\<close>

lemma idle_turn_unknown_user:
  assumes "sessions w tid = Some s"
    and "state s = IDLE"
    and "users (db w) tid = None"
  shows "handle_message env w tid inbound =
           Returns (emit w (error_reply env (get_language (db w) tid)))"
  unfolding handle_message_def
  by (simp add: get_user_session_known [OF assms(1)] the_session_known [OF assms(1)] assms(2)
      sm_create_conversation_unknown [OF assms(3)] truthy_def Let_def)

section \<open>Waiting for a parameter value\<close>



section \<open>Waiting for the credential\<close>

text \<open>
  What the \<open>WAITING_API_KEY\<close> branch does: an invalid credential leaves session, store
  and services as they were and reports it; a valid, non-empty one, for a user the
  store knows, is persisted, the cached client is rebuilt with it, a new conversation
  is created and bound, and the state becomes \<open>CHATTING\<close>.
\<close>

lemma waiting_api_key_turn:
  fixes env w tid inbound
  defines "key \<equiv> strip inbound"
  defines "new \<equiv> next_conv_id (conversations (db w))"
  assumes sess: "sessions w tid = Some s"
    and st: "state s = WAITING_API_KEY"
  shows "(validate_api_key env key = Returns False \<longrightarrow>
            (\<exists>w'. handle_message env w tid inbound = Returns w' \<and>
               the_session w' tid = s \<and> db w' = db w \<and> ai_services w' = ai_services w \<and>
               trace w' = trace w @
                 [Reply_text (get_message env (get_language (db w) tid) ''processing'' []),
                  Gateway_validate key,
                  Edit_text (Some (get_message env (get_language (db w) tid) ''api_invalid'' []))])) \<and>
         (validate_api_key env key = Returns True \<and> users (db w) tid = Some user \<and> key \<noteq> [] \<longrightarrow>
            (\<exists>w'. handle_message env w tid inbound = Returns w' \<and>
               get_api_key (db w') tid = Some key \<and>
               Option.bind (ai_services w' tid) client = Some key \<and>
               conversations (db w') =
                 conversations (db w) @ [\<lparr>conv_id = new, user_id = uid user\<rparr>] \<and>
               the_session w' tid = s\<lparr>conversation_id := Some new, state := CHATTING\<rparr> \<and>
               trace w' = trace w @
                 [Reply_text (get_message env (get_language (db w) tid) ''processing'' []),
                  Gateway_validate key,
                  Edit_text (Some (get_message env (get_language (db w) tid) ''api_set_success'' []))]))"
proof (intro conjI impI)
  assume "validate_api_key env key = Returns False"
  then show "\<exists>w'. handle_message env w tid inbound = Returns w' \<and>
               the_session w' tid = s \<and> db w' = db w \<and> ai_services w' = ai_services w \<and>
               trace w' = trace w @
                 [Reply_text (get_message env (get_language (db w) tid) ''processing'' []),
                  Gateway_validate key,
                  Edit_text (Some (get_message env (get_language (db w) tid) ''api_invalid'' []))]"
    unfolding handle_message_def key_def
    by (simp add: get_user_session_known [OF sess] the_session_known [OF sess] st Let_def)
next
  assume a: "validate_api_key env key = Returns True \<and> users (db w) tid = Some user \<and> key \<noteq> []"
  let ?w2 = "emit (emit w (Reply_text (get_message env (get_language (db w) tid) ''processing'' [])))
               (Gateway_validate key)"
  let ?w4 = "update_ai_service (?w2\<lparr>db := snd (set_api_key (db ?w2) tid key)\<rparr>) tid key"
  have u4: "users (db ?w4) tid = Some (user\<lparr>api_key := Some key\<rparr>)"
    using a by (simp add: update_ai_service_def set_api_key_def split: option.splits)
  have c4: "conversations (db ?w4) = conversations (db w)"
    using a by (simp add: update_ai_service_def set_api_key_def split: option.splits)
  have s4: "sessions ?w4 = sessions w"
    by (simp add: update_ai_service_def split: option.splits)
  have t4: "trace ?w4 = trace ?w2"
    by (simp add: update_ai_service_def split: option.splits)
  have a4: "Option.bind (ai_services ?w4 tid) client = Some key"
    using a by (simp add: update_ai_service_def AIService_init_def setup_client_def emit_def Let_def
        split: option.splits)
  have ts4: "the_session ?w4 tid = s"
    using the_session_sessions_cong [OF s4, of tid] the_session_known [OF sess] by simp
  have create: "sm_create_conversation ?w4 tid =
      (Some new, update_session (get_user_session
         (?w4\<lparr>db := (db ?w4)\<lparr>conversations := conversations (db ?w4) @
            [\<lparr>conv_id = next_conv_id (conversations (db ?w4)),
              user_id = uid (user\<lparr>api_key := Some key\<rparr>)\<rparr>]\<rparr>\<rparr>) tid)
         tid (\<lambda>s. s\<lparr>conversation_id := Some new\<rparr>))"
    using sm_create_conversation_known [OF u4] by (simp only: c4 new_def)
  show "\<exists>w'. handle_message env w tid inbound = Returns w' \<and>
               get_api_key (db w') tid = Some key \<and>
               Option.bind (ai_services w' tid) client = Some key \<and>
               conversations (db w') =
                 conversations (db w) @ [\<lparr>conv_id = new, user_id = uid user\<rparr>] \<and>
               the_session w' tid = s\<lparr>conversation_id := Some new, state := CHATTING\<rparr> \<and>
               trace w' = trace w @
                 [Reply_text (get_message env (get_language (db w) tid) ''processing'' []),
                  Gateway_validate key,
                  Edit_text (Some (get_message env (get_language (db w) tid) ''api_set_success'' []))]"
    unfolding handle_message_def
    using a a4 u4 c4 ts4 t4 create
    by (simp add: get_user_session_known [OF sess] the_session_known [OF sess] st Let_def
        key_def [symmetric] get_api_key_def new_def)
qed

text \<open>
  C2 at a user the store does not know, who sends \<open>/setapi\<close> and then a valid
  credential: the handler reports success and moves to \<open>CHATTING\<close>, although the
  credential was not persisted and no conversation was created or bound.
\<close>

theorem unknown_user_key_accepted:
  "state (the_session (setapi_command demo_env fresh_world ''7'') ''7'') = WAITING_API_KEY \<and>
   validate_api_key demo_env ''sk-good'' = Returns True \<and>
   is_Returns (handle_message demo_env (setapi_command demo_env fresh_world ''7'') ''7'' ''sk-good'') \<and>
   state (the_session (result
     (handle_message demo_env (setapi_command demo_env fresh_world ''7'') ''7'' ''sk-good'')) ''7'')
     = CHATTING \<and>
   conversation_id (the_session (result
     (handle_message demo_env (setapi_command demo_env fresh_world ''7'') ''7'' ''sk-good'')) ''7'')
     = None \<and>
   get_api_key (db (result
     (handle_message demo_env (setapi_command demo_env fresh_world ''7'') ''7'' ''sk-good''))) ''7''
     = None \<and>
   conversations (db (result
     (handle_message demo_env (setapi_command demo_env fresh_world ''7'') ''7'' ''sk-good''))) = [] \<and>
   last (trace (result
     (handle_message demo_env (setapi_command demo_env fresh_world ''7'') ''7'' ''sk-good'')))
     = Edit_text (Some ''api_set_success'')"
  by (simp add: eval_defs)

section \<open>The language callback\<close>

text \<open>
  C10, as stated, fails: the callback handler does not look at the session state. For
  a user in \<open>CHATTING\<close> state a language choice changes the stored language and moves
  the session to \<open>IDLE\<close>.
\<close>

theorem language_callback_counterexample:
  "state (the_session (demo_world CHATTING (Some 1)) ''42'') = CHATTING \<and>
   get_language (db (demo_world CHATTING (Some 1))) ''42'' = ''en'' \<and>
   state (the_session
     (handle_language_selection demo_env (demo_world CHATTING (Some 1)) ''42'' ''lang_de'') ''42'') = IDLE \<and>
   get_language (db
     (handle_language_selection demo_env (demo_world CHATTING (Some 1)) ''42'' ''lang_de'')) ''42'' = ''de''"
  by (simp add: handle_language_selection_def world_defs demo_world_def demo_db_def demo_env_def
      set_language_def get_language_def User_init_def Let_def)

text \<open>
  C10, amended: a language-choice callback moves the session to \<open>IDLE\<close> in every
  session state, keeps the conversation handle, answers the callback and replaces the
  prompt by the confirmation in the chosen language; for a user known to the store it
  persists the chosen language, for an unknown user the store is unchanged.
\<close>

theorem language_callback_any_state:
  "state (the_session (handle_language_selection env w tid (''lang_'' @ code)) tid) = IDLE \<and>
   conversation_id (the_session (handle_language_selection env w tid (''lang_'' @ code)) tid)
     = conversation_id (the_session w tid) \<and>
   (users (db w) tid \<noteq> None \<longrightarrow>
      get_language (db (handle_language_selection env w tid (''lang_'' @ code))) tid = code) \<and>
   (users (db w) tid = None \<longrightarrow>
      db (handle_language_selection env w tid (''lang_'' @ code)) = db w) \<and>
   trace (handle_language_selection env w tid (''lang_'' @ code)) =
     trace w @ [Answer_callback, Edit_text (Some (get_message env code ''language_set'' []))]"
  by (auto simp add: handle_language_selection_def world_defs set_language_def get_language_def Let_def
      split: option.splits)

theorem language_callback_any_state_witness:
  "users (db (demo_world WAITING_API_KEY None)) ''42'' \<noteq> None \<and>
   state (the_session
     (handle_language_selection demo_env (demo_world WAITING_API_KEY None) ''42'' ''lang_ru'') ''42'') = IDLE \<and>
   get_language (db
     (handle_language_selection demo_env (demo_world WAITING_API_KEY None) ''42'' ''lang_ru'')) ''42'' = ''ru''"
  using language_callback_any_state [of demo_env "demo_world WAITING_API_KEY None" "''42''" "''ru''"]
  by (simp add: demo_world_def demo_db_def)

end
